theory Spec2Isabelle
  imports Main "HOL-Library.Word"
begin

unbundle bit_operations_syntax

section \<open>Python strings\<close>

text \<open>
  A Python \<open>str\<close> is modelled as a \<open>string\<close>; a \<open>char\<close> stands for a code point below 256.
  \<open>str.isspace\<close> holds there for the code points 9 to 13, 28 to 32, 133 and 160.
\<close>

definition isspace :: "char \<Rightarrow> bool" where
  "isspace c = ((of_char c :: nat) \<in> set [9, 10, 11, 12, 13, 28, 29, 30, 31, 32, 133, 160])"

definition strip :: "string \<Rightarrow> string" where
  "strip s = rev (dropWhile isspace (rev (dropWhile isspace s)))"

text \<open>\<open>str.lower\<close>, on the ASCII letters (the only ones that can give a letter of \<open>quit\<close>).\<close>

definition lower_char :: "char \<Rightarrow> char" where
  "lower_char c = (let n = (of_char c :: nat) in if 65 \<le> n \<and> n \<le> 90 then char_of (n + 32) else c)"

definition lower :: "string \<Rightarrow> string" where
  "lower s = map lower_char s"

definition startswith :: "string \<Rightarrow> string \<Rightarrow> bool" where
  "startswith s p = (take (length p) s = p)"

text \<open>\<open>sub in s\<close>: \<open>sub\<close> occurs in \<open>s\<close> as a contiguous run.\<close>

fun contains :: "string \<Rightarrow> string \<Rightarrow> bool" where
  "contains sub [] = (sub = [])"
| "contains sub (c # cs) = (startswith (c # cs) sub \<or> contains sub cs)"

text \<open>\<open>s.split('\n')\<close>: always at least one piece.\<close>

fun split_nl :: "string \<Rightarrow> string list" where
  "split_nl [] = [] # []"
| "split_nl (c # cs) =
     (if c = CHR 0x0A then [] # split_nl cs
      else (case split_nl cs of [] \<Rightarrow> [c] # [] | l # ls \<Rightarrow> (c # l) # ls))"

section \<open>Recovering the transcript from the tool's output\<close>

text \<open>The first test of the loop body in \<open>transcribe_audio\<close>: lines that are clearly debug info.\<close>

definition is_debug_info :: "string \<Rightarrow> bool" where
  "is_debug_info line =
     (startswith line ''Info:'' \<or>
      startswith line ''{'' \<or>
      startswith line ''}'' \<or>
      contains ''card'' line \<or>
      contains ''dim'' line \<or>
      contains ''num_heads'' line \<or>
      contains ''model_id'' line \<or>
      contains ''tokenizer'' line \<or>
      contains ''steps'' line \<or>
      contains ''token per sec'' line)"

text \<open>
  The \<open>for line in reversed(stdout_lines)\<close> loop: \<open>continue\<close> on debug info, \<open>break\<close> with the
  first line that passes the second test; \<open>transcription\<close> starts as the empty string.
\<close>

fun scan_lines :: "string list \<Rightarrow> string" where
  "scan_lines [] = []"
| "scan_lines (l # ls) =
     (let line = strip l in
      if is_debug_info line then scan_lines ls
      else if line \<noteq> [] \<and> \<not> startswith line ''Info:'' \<and> \<not> startswith line ''{'' then line
      else scan_lines ls)"

definition stdout_lines :: "string \<Rightarrow> string list" where
  "stdout_lines out = split_nl (strip out)"

definition extract_transcription :: "string \<Rightarrow> string" where
  "extract_transcription out = scan_lines (rev (stdout_lines out))"

text \<open>
  The parser as the specification words it: take the trimmed output lines from the end backward,
  drop every line that matches a diagnostic pattern, and return the first non-empty line that
  is left, or the empty string.
\<close>

definition informational :: "string \<Rightarrow> bool" where
  "informational line = startswith line ''Info:''"

definition json_brace :: "string \<Rightarrow> bool" where
  "json_brace line = (startswith line ''{'' \<or> startswith line ''}'')"

definition metadata_keywords :: "string list" where
  "metadata_keywords =
     [''card'', ''dim'', ''num_heads'', ''model_id'', ''tokenizer'', ''steps'', ''token per sec'']"

definition model_metadata :: "string \<Rightarrow> bool" where
  "model_metadata line = list_ex (\<lambda>k. contains k line) metadata_keywords"

definition diagnostic :: "string \<Rightarrow> bool" where
  "diagnostic line = (informational line \<or> json_brace line \<or> model_metadata line)"

definition transcript_spec :: "string \<Rightarrow> string" where
  "transcript_spec out =
     (case filter (\<lambda>l. l \<noteq> []) (filter (\<lambda>l. \<not> diagnostic l) (rev (map strip (stdout_lines out)))) of
        [] \<Rightarrow> []
      | l # _ \<Rightarrow> l)"

section \<open>The audio transport codec\<close>

text \<open>
  The codec is Python's \<open>base64\<close> module, called by \<open>process_command\<close> and by the client.
  \<open>b64encode\<close> is modelled by the grouping of RFC 4648: three bytes give four characters of
  the alphabet, a tail of one or two bytes is padded with \<open>=\<close>. \<open>b64decode\<close> is modelled by the
  loop of the non-strict decoder: it skips every character outside the alphabet, stops at a
  complete pad sequence and raises when the data characters do not fill their last group.
  The six-bit values index a table of 64 characters; they are below 64 wherever the encoder
  reads the table.
\<close>

text \<open>The decimal digits of a natural number, as \<open>str\<close> prints them.\<close>

fun digits :: "nat \<Rightarrow> string" where
  "digits n = (if n < 10 then [char_of (48 + n)] else digits (n div 10) @ [char_of (48 + n mod 10)])"

declare digits.simps [simp del]

type_synonym byte = "8 word"

definition b64_alphabet :: string where
  "b64_alphabet = ''ABCDEFGHIJKLMNOPQRSTUVWXYZabcdefghijklmnopqrstuvwxyz0123456789+/''"

definition table_b2a :: "byte \<Rightarrow> char" where
  "table_b2a v = b64_alphabet ! unat v"

fun index_of :: "'a \<Rightarrow> 'a list \<Rightarrow> nat option" where
  "index_of x [] = None"
| "index_of x (y # ys) = (if x = y then Some 0 else map_option Suc (index_of x ys))"

definition table_a2b :: "char \<Rightarrow> byte option" where
  "table_a2b c = map_option of_nat (index_of c b64_alphabet)"

definition sextet1 :: "byte \<Rightarrow> byte" where
  "sextet1 a = drop_bit 2 a"

definition sextet2 :: "byte \<Rightarrow> byte \<Rightarrow> byte" where
  "sextet2 a b = push_bit 4 (a AND 3) OR drop_bit 4 b"

definition sextet3 :: "byte \<Rightarrow> byte \<Rightarrow> byte" where
  "sextet3 b c = push_bit 2 (b AND 15) OR drop_bit 6 c"

definition sextet4 :: "byte \<Rightarrow> byte" where
  "sextet4 c = c AND 63"

definition tail2 :: "byte \<Rightarrow> byte" where
  "tail2 a = push_bit 4 (a AND 3)"

definition tail3 :: "byte \<Rightarrow> byte" where
  "tail3 b = push_bit 2 (b AND 15)"

fun b2a_base64 :: "byte list \<Rightarrow> string" where
  "b2a_base64 [] = []"
| "b2a_base64 [a] = [table_b2a (sextet1 a), table_b2a (tail2 a), CHR ''='', CHR ''='']"
| "b2a_base64 [a, b] =
     [table_b2a (sextet1 a), table_b2a (sextet2 a b), table_b2a (tail3 b), CHR ''='']"
| "b2a_base64 (a # b # c # bs) =
     [table_b2a (sextet1 a), table_b2a (sextet2 a b), table_b2a (sextet3 b c),
      table_b2a (sextet4 c)] @ b2a_base64 bs"

text \<open>
  The decoder's state: the position in the current group of four, the bits left over from
  the previous character, the pad characters seen since the last data character, and the
  bytes decoded so far.
\<close>

fun a2b_base64 :: "nat \<Rightarrow> byte \<Rightarrow> nat \<Rightarrow> string \<Rightarrow> byte list \<Rightarrow> string + byte list" where
  "a2b_base64 quad_pos leftchar pads [] bin_data =
     (if quad_pos \<noteq> 0 then
        (if quad_pos = 1 then
           Inl (''Invalid base64-encoded string: number of data characters ('' @
                digits (length bin_data div 3 * 4 + 1) @
                '') cannot be 1 more than a multiple of 4'')
         else Inl ''Incorrect padding'')
      else Inr bin_data)"
| "a2b_base64 quad_pos leftchar pads (this_ch # rest) bin_data =
     (if this_ch = CHR ''='' then
        (if quad_pos \<ge> 2 \<and> quad_pos + (pads + 1) \<ge> 4 then Inr bin_data
         else a2b_base64 quad_pos leftchar (if quad_pos \<ge> 2 then pads + 1 else pads) rest bin_data)
      else
        (case table_a2b this_ch of
           None \<Rightarrow> a2b_base64 quad_pos leftchar pads rest bin_data
         | Some v \<Rightarrow>
            (if quad_pos = 0 then a2b_base64 1 v 0 rest bin_data
             else if quad_pos = 1 then
               a2b_base64 2 (v AND 15) 0 rest (bin_data @ [push_bit 2 leftchar OR drop_bit 4 v])
             else if quad_pos = 2 then
               a2b_base64 3 (v AND 3) 0 rest (bin_data @ [push_bit 4 leftchar OR drop_bit 2 v])
             else a2b_base64 0 0 0 rest (bin_data @ [push_bit 6 leftchar OR v]))))"

definition b64encode :: "byte list \<Rightarrow> string" where
  "b64encode s = b2a_base64 s"

text \<open>A \<open>str\<close> argument must be ASCII; it is then decoded as bytes.\<close>

definition b64decode :: "string \<Rightarrow> string + byte list" where
  "b64decode s =
     (if list_all (\<lambda>c. (of_char c :: nat) < 128) s then a2b_base64 0 0 0 s []
      else Inl ''string argument should contain only ASCII characters'')"

text \<open>
  \<open>ndarray.tobytes\<close> and \<open>np.frombuffer(..., dtype=np.int16)\<close> on a little-endian machine:
  two bytes per sample, low byte first; a buffer of odd length is refused.
\<close>

type_synonym int16 = "16 word"

fun tobytes :: "int16 list \<Rightarrow> byte list" where
  "tobytes [] = []"
| "tobytes (x # xs) = ucast x # ucast (drop_bit 8 x) # tobytes xs"

fun frombuffer :: "byte list \<Rightarrow> string + int16 list" where
  "frombuffer [] = Inr []"
| "frombuffer [lo] = Inl ''buffer size must be a multiple of element size''"
| "frombuffer (lo # hi # bs) =
     (case frombuffer bs of
        Inl e \<Rightarrow> Inl e
      | Inr xs \<Rightarrow> Inr ((push_bit 8 (ucast hi) OR ucast lo) # xs))"

section \<open>Commands and responses\<close>

text \<open>
  What \<open>json.loads\<close> returns: \<open>None\<close>, a bool, an int, a \<open>str\<close>, a list or a dict (an
  association list with distinct keys).
\<close>

datatype json =
    JNull
  | JBool bool
  | JInt int
  | JString string
  | JArray "json list"
  | JObject "(string \<times> json) list"

text \<open>\<open>d.get(k, default)\<close>; \<open>d.get(k)\<close> is \<open>dict_get d k JNull\<close>.\<close>

definition dict_get :: "(string \<times> json) list \<Rightarrow> string \<Rightarrow> json \<Rightarrow> json" where
  "dict_get d k dflt = (case map_of d k of None \<Rightarrow> dflt | Some v \<Rightarrow> v)"

text \<open>The truth value of a decoded value, as \<open>if audio_b64:\<close> tests it.\<close>

fun truthy :: "json \<Rightarrow> bool" where
  "truthy JNull = False"
| "truthy (JBool b) = b"
| "truthy (JInt n) = (n \<noteq> 0)"
| "truthy (JString s) = (s \<noteq> [])"
| "truthy (JArray xs) = (xs \<noteq> [])"
| "truthy (JObject d) = (d \<noteq> [])"

fun type_name :: "json \<Rightarrow> string" where
  "type_name JNull = ''NoneType''"
| "type_name (JBool b) = ''bool''"
| "type_name (JInt n) = ''int''"
| "type_name (JString s) = ''str''"
| "type_name (JArray xs) = ''list''"
| "type_name (JObject d) = ''dict''"

definition show_int :: "int \<Rightarrow> string" where
  "show_int i = (if i < 0 then ''-'' @ digits (nat (- i)) else digits (nat i))"

definition quoted :: "string \<Rightarrow> string" where
  "quoted s = [CHR 0x27] @ s @ [CHR 0x27]"

fun join :: "string \<Rightarrow> string list \<Rightarrow> string" where
  "join sep [] = []"
| "join sep [x] = x"
| "join sep (x # y # ys) = x @ sep @ join sep (y # ys)"

text \<open>
  What \<open>process_command\<close> returns: the text made by \<open>json.dumps\<close>, kept as the value it was
  made from (one line of JSON text, whatever the value), or \<open>None\<close>.
\<close>

datatype response = Dumps json | PyNone

definition error_response :: "string \<Rightarrow> response" where
  "error_response msg = Dumps (JObject [(''type'', JString ''error''), (''error'', JString msg)])"

section \<open>The world outside the service\<close>

text \<open>
  Temporary files are named by a counter that never repeats. A file holds text, audio
  (sample rate and samples) or nothing yet.
\<close>

datatype path = TmpFile nat string

datatype content = Blank | TextFile string | WavFile json "int16 list"

datatype arg = A string | P path

text \<open>
  One call of \<open>subprocess.run\<close>: the command, the timeout in seconds, whether \<open>check=True\<close>
  was given, and the files named on the command line as the tool finds them.
\<close>

record invocation =
  argv :: "arg list"
  timeout :: nat
  check :: bool
  seen :: "(path \<times> content) list"

text \<open>Standard output: the lines of \<open>print\<close>; \<open>Result\<close> is the \<open>print(result)\<close> of the main loop.\<close>

datatype printed = Diag string | Result response

record world =
  files :: "path \<Rightarrow> content option"
  created :: "path list"
  calls :: "invocation list"
  stdout :: "printed list"

text \<open>
  How one run of an external tool ends: it exits with a return code, its captured output and
  error text, and the audio it left in its output file, if any; or it outlives the timeout;
  or it cannot be run at all.
\<close>

datatype outcome =
    Completed int string string "int16 list option"
  | TimedOut
  | Failed string

text \<open>
  The libraries and tools the service calls but does not contain: the JSON decoder (\<open>Inl\<close> is
  the text of the exception it raises), \<open>repr\<close> of a list or dict, whether \<open>soundfile.write\<close>
  refuses a sample rate and buffer, how the n-th subprocess ends, and the name the platform
  gives a signal number.

  The text of a command can hold characters that the encoding of standard output, or of a
  text file, cannot encode: any character from 128 on an ASCII stream, a lone surrogate from
  a JSON escape on every stream. \<open>print\<close> and \<open>write\<close> then raise
  \<open>UnicodeEncodeError\<close>. Which characters from 128 on each encoding accepts, and the text of
  the exception, belong to the environment; ASCII is always accepted. The literals of the
  program, the paths, the exception texts and the output captured from a tool are taken to
  be printable.
\<close>

record env =
  loads :: "string \<Rightarrow> string + json"
  repr :: "json \<Rightarrow> string"
  sf_write_error :: "json \<Rightarrow> int16 list \<Rightarrow> string option"
  run_outcome :: "nat \<Rightarrow> outcome"
  signal_name :: "nat \<Rightarrow> string option"
  stdout_encodes :: "char \<Rightarrow> bool"
  file_encodes :: "char \<Rightarrow> bool"
  encode_error :: "string \<Rightarrow> string"

definition printable :: "env \<Rightarrow> string \<Rightarrow> bool" where
  "printable env s = list_all (\<lambda>c. (of_char c :: nat) < 128 \<or> stdout_encodes env c) s"

definition writable :: "env \<Rightarrow> string \<Rightarrow> bool" where
  "writable env s = list_all (\<lambda>c. (of_char c :: nat) < 128 \<or> file_encodes env c) s"

datatype exc =
    CalledProcessError "arg list" int string string
  | TimeoutExpired "arg list" nat
  | Exception string

definition path_str :: "path \<Rightarrow> string" where
  "path_str p = (case p of TmpFile n suffix \<Rightarrow> ''/tmp/tmp'' @ digits n @ suffix)"

definition arg_str :: "arg \<Rightarrow> string" where
  "arg_str a = (case a of A s \<Rightarrow> s | P p \<Rightarrow> path_str p)"

definition cmd_repr :: "arg list \<Rightarrow> string" where
  "cmd_repr cmd = ''['' @ join '', '' (map (\<lambda>a. quoted (arg_str a)) cmd) @ '']''"

text \<open>
  \<open>str(e)\<close>. A negative return code is the number of the signal that ended the process;
  \<open>CalledProcessError\<close> then names the signal, if the platform has a name for it.
\<close>

fun str_exc :: "env \<Rightarrow> exc \<Rightarrow> string" where
  "str_exc env (CalledProcessError cmd rc out err) =
     (if rc < 0 then
        (case signal_name env (nat (- rc)) of
           Some name \<Rightarrow>
             ''Command '' @ quoted (cmd_repr cmd) @ '' died with <Signals.'' @ name @ '': '' @
             digits (nat (- rc)) @ ''>.''
         | None \<Rightarrow>
             ''Command '' @ quoted (cmd_repr cmd) @ '' died with unknown signal '' @
             digits (nat (- rc)) @ ''.'')
      else
        ''Command '' @ quoted (cmd_repr cmd) @ '' returned non-zero exit status '' @
        show_int rc @ ''.'')"
| "str_exc env (TimeoutExpired cmd t) =
     ''Command '' @ quoted (cmd_repr cmd) @ '' timed out after '' @ digits t @ '' seconds''"
| "str_exc env (Exception msg) = msg"

text \<open>\<open>str\<close> of a decoded value, as an f-string formats it.\<close>

definition py_str :: "env \<Rightarrow> json \<Rightarrow> string" where
  "py_str env v =
     (case v of
        JNull \<Rightarrow> ''None''
      | JBool b \<Rightarrow> (if b then ''True'' else ''False'')
      | JInt n \<Rightarrow> show_int n
      | JString s \<Rightarrow> s
      | _ \<Rightarrow> repr env v)"

definition py_print :: "string \<Rightarrow> world \<Rightarrow> world" where
  "py_print s w = w\<lparr>stdout := stdout w @ [Diag s]\<rparr>"

text \<open>\<open>tempfile.NamedTemporaryFile(suffix=..., delete=False)\<close>: a new, empty file that stays.\<close>

definition named_temporary_file :: "string \<Rightarrow> world \<Rightarrow> path \<times> world" where
  "named_temporary_file suffix w =
     (let p = TmpFile (length (created w)) suffix
      in (p, w\<lparr>files := (files w)(p \<mapsto> Blank), created := created w @ [p]\<rparr>))"

definition write_text :: "path \<Rightarrow> string \<Rightarrow> world \<Rightarrow> world" where
  "write_text p t w = w\<lparr>files := (files w)(p \<mapsto> TextFile t)\<rparr>"

definition os_unlink :: "path \<Rightarrow> world \<Rightarrow> world" where
  "os_unlink p w = w\<lparr>files := (files w)(p := None)\<rparr>"

definition path_exists :: "path \<Rightarrow> world \<Rightarrow> bool" where
  "path_exists p w = (files w p \<noteq> None)"

definition sf_write :: "env \<Rightarrow> path \<Rightarrow> int16 list \<Rightarrow> json \<Rightarrow> world \<Rightarrow> exc + world" where
  "sf_write env p data samplerate w =
     (case sf_write_error env samplerate data of
        Some msg \<Rightarrow> Inl (Exception msg)
      | None \<Rightarrow> Inr (w\<lparr>files := (files w)(p \<mapsto> WavFile samplerate data)\<rparr>))"

definition sf_read :: "path \<Rightarrow> world \<Rightarrow> exc + int16 list" where
  "sf_read p w =
     (case files w p of
        Some (WavFile rate data) \<Rightarrow> Inr data
      | _ \<Rightarrow> Inl (Exception (''Error opening '' @ quoted (path_str p) @ '': Format not recognised.'')))"

fun arg_file :: "world \<Rightarrow> arg \<Rightarrow> (path \<times> content) option" where
  "arg_file w (A s) = None"
| "arg_file w (P p) = map_option (Pair p) (files w p)"

text \<open>The synthesis tool is given two files and writes the second; the other tool writes none.\<close>

definition output_file :: "arg list \<Rightarrow> path option" where
  "output_file cmd = (case List.map_filter (\<lambda>a. case a of P p \<Rightarrow> Some p | A s \<Rightarrow> None) cmd of
                        [p, q] \<Rightarrow> Some q
                      | _ \<Rightarrow> None)"

definition tool_writes :: "arg list \<Rightarrow> int16 list option \<Rightarrow> world \<Rightarrow> world" where
  "tool_writes cmd audio w =
     (case (output_file cmd, audio) of
        (Some q, Some data) \<Rightarrow> w\<lparr>files := (files w)(q \<mapsto> WavFile (JInt 24000) data)\<rparr>
      | _ \<Rightarrow> w)"

text \<open>
  \<open>subprocess.run(cmd, capture_output=True, text=True, timeout=t)\<close>, with or without
  \<open>check=True\<close>: the call is recorded, then it returns (return code, stdout, stderr) or raises.
\<close>

definition subprocess_run ::
  "env \<Rightarrow> arg list \<Rightarrow> bool \<Rightarrow> nat \<Rightarrow> world \<Rightarrow> (exc + int \<times> string \<times> string) \<times> world" where
  "subprocess_run env cmd chk t w =
     (let w1 = w\<lparr>calls := calls w @
                 [\<lparr>argv = cmd, timeout = t, check = chk, seen = List.map_filter (arg_file w) cmd\<rparr>]\<rparr>
      in case run_outcome env (length (calls w)) of
           Failed msg \<Rightarrow> (Inl (Exception msg), w1)
         | TimedOut \<Rightarrow> (Inl (TimeoutExpired cmd t), w1)
         | Completed rc out err audio \<Rightarrow>
             (if chk \<and> rc \<noteq> 0 then (Inl (CalledProcessError cmd rc out err), tool_writes cmd audio w1)
              else (Inr (rc, out, err), tool_writes cmd audio w1)))"

section \<open>The service\<close>

record service =
  stt_warmed_up :: bool
  tts_warmed_up :: bool
  stt_model_repo :: string

definition init_service :: service where
  "init_service = \<lparr>stt_warmed_up = False, tts_warmed_up = False,
                   stt_model_repo = ''kyutai/stt-2.6b-en-mlx''\<rparr>"

definition init_world :: world where
  "init_world = \<lparr>files = Map.empty, created = [], calls = [], stdout = []\<rparr>"

text \<open>One second of silence at 16 kHz.\<close>

definition silence :: "int16 list" where
  "silence = replicate 16000 0"

definition stt_cmd :: "service \<Rightarrow> path \<Rightarrow> arg list" where
  "stt_cmd s audio_path =
     [A ''python'', A ''-m'', A ''moshi_mlx.run_inference'', A ''--hf-repo'', A (stt_model_repo s),
      P audio_path, A ''--temp'', A ''0'']"

definition tts_cmd :: "path \<Rightarrow> path \<Rightarrow> arg list" where
  "tts_cmd text_path output_path =
     [A ''python3'', A ''delayed-streams-modeling/scripts/tts_mlx.py'', P text_path, P output_path,
      A ''--quantize'', A ''8'']"

definition warmup_stt :: "env \<Rightarrow> service \<Rightarrow> world \<Rightarrow> bool \<times> service \<times> world" where
  "warmup_stt env s w =
     (if \<not> stt_warmed_up s then
        (let w1 = py_print ''Warming up STT model...'' w;
             (dummy_audio_path, w2) = named_temporary_file ''.wav'' w1
         in case sf_write env dummy_audio_path silence (JInt 16000) w2 of
              Inl e \<Rightarrow> (False, s, py_print (''STT warmup failed: '' @ str_exc env e) w2)
            | Inr w3 \<Rightarrow>
               (case subprocess_run env (stt_cmd s dummy_audio_path) False 120 w3 of
                  (Inl e, w4) \<Rightarrow> (False, s, py_print (''STT warmup failed: '' @ str_exc env e) w4)
                | (Inr result, w4) \<Rightarrow>
                    (True, s\<lparr>stt_warmed_up := True\<rparr>,
                     py_print ''STT model warmed up successfully!'' (os_unlink dummy_audio_path w4))))
      else (True, s, w))"

fun warmup_tts_except :: "env \<Rightarrow> exc \<Rightarrow> world \<Rightarrow> world" where
  "warmup_tts_except env (CalledProcessError cmd rc out err) w =
     py_print ''Continuing without TTS functionality...''
       (py_print (''TTS stdout: '' @ out)
         (py_print (''TTS stderr: '' @ err)
           (py_print (''TTS warmup failed: '' @ str_exc env (CalledProcessError cmd rc out err)) w)))"
| "warmup_tts_except env e w =
     py_print ''Continuing without TTS functionality...''
       (py_print (''TTS warmup failed: '' @ str_exc env e) w)"

definition warmup_tts :: "env \<Rightarrow> service \<Rightarrow> world \<Rightarrow> bool \<times> service \<times> world" where
  "warmup_tts env s w =
     (if \<not> tts_warmed_up s then
        (let w1 = py_print ''Warming up TTS model...'' w;
             w2 = py_print ''Using TTS script: delayed-streams-modeling/scripts/tts_mlx.py'' w1;
             (text_path, w3) = named_temporary_file ''.txt'' w2;
             w4 = write_text text_path ''Hello'' w3;
             (output_path, w5) = named_temporary_file ''.wav'' w4;
             cmd = tts_cmd text_path output_path;
             w6 = py_print (''Executing TTS command: '' @ join '' '' (map arg_str cmd)) w5
         in case subprocess_run env cmd True 120 w6 of
              (Inl e, w7) \<Rightarrow> (False, s, warmup_tts_except env e w7)
            | (Inr (rc, out, err), w7) \<Rightarrow>
                (let w8 = py_print ''TTS warmup command completed successfully'' w7;
                     w9 = py_print (''TTS stdout: '' @ out) w8;
                     w10 = os_unlink output_path (os_unlink text_path w9)
                 in (True, s\<lparr>tts_warmed_up := True\<rparr>,
                     py_print ''TTS model warmed up successfully!'' w10)))
      else (True, s, w))"

fun stt_except :: "env \<Rightarrow> exc \<Rightarrow> world \<Rightarrow> world" where
  "stt_except env (TimeoutExpired cmd t) w = py_print ''STT inference timed out'' w"
| "stt_except env e w = py_print (''STT inference failed: '' @ str_exc env e) w"

text \<open>
  \<open>transcribe_audio\<close> after its warmup check. The result is \<open>Inl\<close> for an exception that
  leaves the method, \<open>Inr None\<close> for \<open>None\<close>, \<open>Inr (Some t)\<close> for a transcription.
  \<open>soundfile.write\<close> is called before the \<open>try\<close>, so its exception leaves the method and
  the \<open>finally\<close> clause is not reached.
\<close>

definition stt_inference ::
  "env \<Rightarrow> int16 list \<Rightarrow> json \<Rightarrow> service \<Rightarrow> world \<Rightarrow> (exc + string option) \<times> world" where
  "stt_inference env audio_data sample_rate s w =
     (let (audio_path, w1) = named_temporary_file ''.wav'' w
      in case sf_write env audio_path audio_data sample_rate w1 of
           Inl e \<Rightarrow> (Inl e, w1)
         | Inr w2 \<Rightarrow>
            (case subprocess_run env (stt_cmd s audio_path) True 60 w2 of
               (Inl e, w3) \<Rightarrow> (Inr None, os_unlink audio_path (stt_except env e w3))
             | (Inr (rc, out, err), w3) \<Rightarrow>
                 (Inr (Some (extract_transcription out)), os_unlink audio_path w3)))"

definition transcribe_audio ::
  "env \<Rightarrow> int16 list \<Rightarrow> json \<Rightarrow> service \<Rightarrow> world \<Rightarrow> (exc + string option) \<times> service \<times> world" where
  "transcribe_audio env audio_data sample_rate s w =
     (if \<not> stt_warmed_up s then
        (case warmup_stt env s w of
           (ok, s1, w1) \<Rightarrow>
             if \<not> ok then (Inr None, s1, w1)
             else (case stt_inference env audio_data sample_rate s1 w1 of (r, w2) \<Rightarrow> (r, s1, w2)))
      else (case stt_inference env audio_data sample_rate s w of (r, w2) \<Rightarrow> (r, s, w2)))"

text \<open>
  The line that \<open>text_to_speech\<close> prints first, from \<open>text[:50]\<close> and \<open>len(text)\<close>: a \<open>str\<close>
  or a list can be sliced, any other value raises.
\<close>

definition banner_line :: "string \<Rightarrow> string" where
  "banner_line t =
     ''Generating TTS for text: '' @ quoted (take 50 t @ (if length t > 50 then ''...'' else []))"

definition banner_text :: "env \<Rightarrow> json \<Rightarrow> exc + string" where
  "banner_text env text =
     (case text of
        JString t \<Rightarrow> Inr (banner_line t)
      | JArray xs \<Rightarrow>
          Inr (''Generating TTS for text: '' @
               quoted (repr env (JArray (take 50 xs)) @ (if length xs > 50 then ''...'' else [])))
      | JObject d \<Rightarrow> Inl (Exception (''unhashable type: '' @ quoted ''slice''))
      | _ \<Rightarrow> Inl (Exception (quoted (type_name text) @ '' object is not subscriptable'')))"

text \<open>
  The \<open>print\<close> of that line, before the \<open>try\<close>: \<open>Inr\<close> is the line printed, \<open>Inl\<close> the
  exception raised by the f-string or, for a line that standard output cannot encode, by
  \<open>print\<close>.
\<close>

definition tts_banner :: "env \<Rightarrow> json \<Rightarrow> exc + string" where
  "tts_banner env text =
     (case banner_text env text of
        Inl e \<Rightarrow> Inl e
      | Inr line \<Rightarrow>
          (if printable env line then Inr line else Inl (Exception (encode_error env line))))"

fun tts_except :: "env \<Rightarrow> exc \<Rightarrow> world \<Rightarrow> world" where
  "tts_except env (CalledProcessError cmd rc out err) w =
     py_print (''TTS inference stdout: '' @ out)
       (py_print (''TTS inference stderr: '' @ err)
         (py_print (''TTS inference failed: '' @ str_exc env (CalledProcessError cmd rc out err)) w))"
| "tts_except env (TimeoutExpired cmd t) w = py_print ''TTS inference timed out'' w"
| "tts_except env e w = py_print (''TTS inference failed: '' @ str_exc env e) w"

text \<open>The \<open>try\<close> statement of \<open>text_to_speech\<close>, with its \<open>finally\<close> clause.\<close>

definition tts_inference ::
  "env \<Rightarrow> path \<Rightarrow> path \<Rightarrow> world \<Rightarrow> int16 list option \<times> world" where
  "tts_inference env text_path output_path w =
     (let cmd = tts_cmd text_path output_path;
          w1 = py_print (''Executing TTS inference command: '' @ join '' '' (map arg_str cmd)) w;
          cleanup = (\<lambda>w. os_unlink output_path (os_unlink text_path w))
      in case subprocess_run env cmd True 60 w1 of
           (Inl e, w2) \<Rightarrow> (None, cleanup (tts_except env e w2))
         | (Inr (rc, out, err), w2) \<Rightarrow>
             (let w3 = py_print ''TTS inference command completed successfully'' w2;
                  w4 = py_print (''TTS inference stdout: '' @ out) w3
              in case sf_read output_path w4 of
                   Inl e \<Rightarrow> (None, cleanup (tts_except env e w4))
                 | Inr audio_data \<Rightarrow>
                     (Some audio_data,
                      cleanup (py_print (''Generated audio with '' @ digits (length audio_data) @
                                         '' samples'') w4))))"

text \<open>
  \<open>text_to_speech\<close> after its warmup check. Writing a value that is not a \<open>str\<close>, or a text
  that the file cannot encode, raises inside the \<open>with\<close> block, before the \<open>try\<close>: the text
  file stays, and the exception leaves the method.
\<close>

definition synthesize :: "env \<Rightarrow> json \<Rightarrow> world \<Rightarrow> (exc + int16 list option) \<times> world" where
  "synthesize env text w =
     (case tts_banner env text of
        Inl e \<Rightarrow> (Inl e, w)
      | Inr line \<Rightarrow>
         (let w1 = py_print line w;
              (text_path, w2) = named_temporary_file ''.txt'' w1
          in case text of
               JString t \<Rightarrow>
                 (if writable env t then
                    (let w3 = write_text text_path t w2;
                         (output_path, w4) = named_temporary_file ''.wav'' w3
                     in case tts_inference env text_path output_path w4 of
                          (r, w5) \<Rightarrow> (Inr r, w5))
                  else (Inl (Exception (encode_error env t)), w2))
             | _ \<Rightarrow>
                 (Inl (Exception (''write() argument must be str, not '' @ type_name text)), w2)))"

definition text_to_speech ::
  "env \<Rightarrow> json \<Rightarrow> service \<Rightarrow> world \<Rightarrow> (exc + int16 list option) \<times> service \<times> world" where
  "text_to_speech env text s w =
     (if \<not> tts_warmed_up s then
        (case warmup_tts env s w of
           (ok, s1, w1) \<Rightarrow>
             if \<not> ok then (Inr None, s1, w1)
             else (case synthesize env text w1 of (r, w2) \<Rightarrow> (r, s1, w2)))
      else (case synthesize env text w of (r, w2) \<Rightarrow> (r, s, w2)))"

text \<open>\<open>base64.b64decode\<close> of a decoded value: only a \<open>str\<close> is accepted.\<close>

definition py_b64decode :: "json \<Rightarrow> string + byte list" where
  "py_b64decode v =
     (case v of
        JString s \<Rightarrow> b64decode s
      | _ \<Rightarrow> Inl (''argument should be a bytes-like object or ASCII string, not '' @
                 quoted (type_name v)))"

definition transcription_result :: "string option \<Rightarrow> response" where
  "transcription_result transcription =
     Dumps (JObject [(''type'', JString ''transcription_result''),
                     (''text'', case transcription of None \<Rightarrow> JNull | Some t \<Rightarrow> JString t),
                     (''success'', JBool (transcription \<noteq> None))])"

definition tts_result :: "int16 list option \<Rightarrow> response" where
  "tts_result audio_data =
     (case audio_data of
        Some samples \<Rightarrow>
          Dumps (JObject [(''type'', JString ''tts_result''),
                          (''audio_data'', JString (b64encode (tobytes samples))),
                          (''sample_rate'', JInt 24000),
                          (''success'', JBool True)])
      | None \<Rightarrow>
          Dumps (JObject [(''type'', JString ''tts_result''),
                          (''success'', JBool False),
                          (''error'', JString ''TTS generation failed'')]))"

definition status_result :: "service \<Rightarrow> response" where
  "status_result s =
     Dumps (JObject [(''type'', JString ''status''),
                     (''stt_warmed_up'', JBool (stt_warmed_up s)),
                     (''tts_warmed_up'', JBool (tts_warmed_up s))])"

definition handle_transcribe ::
  "env \<Rightarrow> (string \<times> json) list \<Rightarrow> service \<Rightarrow> world \<Rightarrow> response \<times> service \<times> world" where
  "handle_transcribe env command s w =
     (let audio_b64 = dict_get command ''audio_data'' JNull;
          sample_rate = dict_get command ''sample_rate'' (JInt 16000)
      in if truthy audio_b64 then
           (case py_b64decode audio_b64 of
              Inl msg \<Rightarrow> (error_response msg, s, w)
            | Inr audio_bytes \<Rightarrow>
               (case frombuffer audio_bytes of
                  Inl msg \<Rightarrow> (error_response msg, s, w)
                | Inr audio_data \<Rightarrow>
                   (case transcribe_audio env audio_data sample_rate s w of
                      (Inl e, s1, w1) \<Rightarrow> (error_response (str_exc env e), s1, w1)
                    | (Inr transcription, s1, w1) \<Rightarrow> (transcription_result transcription, s1, w1))))
         else (PyNone, s, w))"

definition handle_tts ::
  "env \<Rightarrow> (string \<times> json) list \<Rightarrow> service \<Rightarrow> world \<Rightarrow> response \<times> service \<times> world" where
  "handle_tts env command s w =
     (let text = dict_get command ''text'' (JString [])
      in case text_to_speech env text s w of
           (Inl e, s1, w1) \<Rightarrow> (error_response (str_exc env e), s1, w1)
         | (Inr audio_data, s1, w1) \<Rightarrow> (tts_result audio_data, s1, w1))"

text \<open>
  \<open>process_command\<close>: every exception raised inside is turned into an error response; a
  \<open>transcribe\<close> command whose \<open>audio_data\<close> is missing or empty falls out of the \<open>if\<close> chain,
  and the method returns \<open>None\<close>.
\<close>

definition process_command ::
  "env \<Rightarrow> string \<Rightarrow> service \<Rightarrow> world \<Rightarrow> response \<times> service \<times> world" where
  "process_command env command_data s w =
     (case loads env command_data of
        Inl msg \<Rightarrow> (error_response msg, s, w)
      | Inr (JObject command) \<Rightarrow>
         (let cmd_type = dict_get command ''type'' JNull
          in if cmd_type = JString ''transcribe'' then handle_transcribe env command s w
             else if cmd_type = JString ''tts'' then handle_tts env command s w
             else if cmd_type = JString ''status'' then (status_result s, s, w)
             else (error_response (''Unknown command type: '' @ py_str env cmd_type), s, w))
      | Inr v \<Rightarrow>
         (error_response (quoted (type_name v) @ '' object has no attribute '' @ quoted ''get''),
          s, w))"

text \<open>The check mark and the cross of \<open>debug_tts_models\<close>, written as their UTF-8 bytes.\<close>

definition check_mark :: string where
  "check_mark = [CHR 0xE2, CHR 0x9C, CHR 0x93]"

definition cross_mark :: string where
  "cross_mark = [CHR 0xE2, CHR 0x9C, CHR 0x97]"

definition debug_tts_models :: "env \<Rightarrow> world \<Rightarrow> world" where
  "debug_tts_models env w =
     (let w1 = py_print (CHR 0x0A # ''=== TTS Script Debug ==='') w;
          (text_path, w2) = named_temporary_file ''.txt'' w1;
          w3 = write_text text_path ''Hello'' w2;
          (output_path, w4) = named_temporary_file ''.wav'' w3;
          cmd = tts_cmd text_path output_path;
          w5 = py_print (''Testing command: '' @ join '' '' (map arg_str cmd)) w4;
          w9 = (case subprocess_run env cmd False 30 w5 of
                  (Inl e, w6) \<Rightarrow> py_print (cross_mark @ '' TTS script - ERROR: '' @ str_exc env e) w6
                | (Inr (returncode, out, err), w6) \<Rightarrow>
                    (let w7 = (if returncode = 0 then
                                 (let w' = py_print (check_mark @ '' TTS script - SUCCESS'') w6
                                  in if path_exists output_path w'
                                     then py_print (''  Generated audio file: '' @ path_str output_path) w'
                                     else w')
                               else
                                 py_print (''  Stderr: '' @ take 200 err @ ''...'')
                                   (py_print (''  Return code: '' @ show_int returncode)
                                     (py_print (cross_mark @ '' TTS script - FAILED'') w6)));
                         w8 = os_unlink text_path w7
                     in if path_exists output_path w8 then os_unlink output_path w8 else w8))
      in py_print (CHR 0x0A # ''=== TTS Debug Complete ==='') w9)"

text \<open>
  What \<open>input()\<close> gives: a line (without its newline), \<open>KeyboardInterrupt\<close>, or another
  exception; the end of the list is the end of the input, \<open>EOFError\<close>.
\<close>

datatype input_event = InputLine string | KeyboardInterrupt | InputError string

definition print_result :: "response \<Rightarrow> world \<Rightarrow> world" where
  "print_result r w = w\<lparr>stdout := stdout w @ [Result r]\<rparr>"

text \<open>The \<open>while True\<close> loop of \<open>main\<close>.\<close>

fun main_loop :: "env \<Rightarrow> input_event list \<Rightarrow> service \<Rightarrow> world \<Rightarrow> service \<times> world" where
  "main_loop env [] s w = (s, py_print ''EOF received, shutting down...'' w)"
| "main_loop env (KeyboardInterrupt # rest) s w = (s, py_print ''Interrupted, shutting down...'' w)"
| "main_loop env (InputError msg # rest) s w =
     main_loop env rest s (print_result (error_response (''Service error: '' @ msg)) w)"
| "main_loop env (InputLine l # rest) s w =
     (let command_line = strip l
      in if lower command_line = ''quit'' then (s, py_print ''Shutting down service...'' w)
         else (case process_command env command_line s w of
                 (result, s1, w1) \<Rightarrow> main_loop env rest s1 (print_result result w1)))"

text \<open>\<open>main\<close> up to the loop: the debug run and the warmup of both models.\<close>

definition startup :: "env \<Rightarrow> world \<Rightarrow> service \<times> world" where
  "startup env w =
     (let s = init_service;
          w1 = py_print ''BaoAgent Service starting...'' w;
          w2 = py_print ''Commands: transcribe, tts, status, quit'' w1;
          w3 = debug_tts_models env w2;
          w4 = py_print ''Warming up models...'' w3
      in case warmup_stt env s w4 of
           (ok1, s1, w5) \<Rightarrow>
             (case warmup_tts env s1 w5 of
                (ok2, s2, w6) \<Rightarrow> (s2, py_print ''Service ready!'' w6)))"

definition main :: "env \<Rightarrow> input_event list \<Rightarrow> world \<Rightarrow> service \<times> world" where
  "main env inputs w = (case startup env w of (s, w1) \<Rightarrow> main_loop env inputs s w1)"

section \<open>Observations on a run\<close>

text \<open>The calls of \<open>subprocess.run\<close> made between two states of the world.\<close>

definition new_calls :: "world \<Rightarrow> world \<Rightarrow> invocation list" where
  "new_calls w w' = drop (length (calls w)) (calls w')"

text \<open>
  The real inference of a command is the call with the 60 second timeout; the warmup calls
  have 120 seconds, the debug call 30.
\<close>

definition inference_attempted :: "world \<Rightarrow> world \<Rightarrow> bool" where
  "inference_attempted w w' = list_ex (\<lambda>c. timeout c = 60) (new_calls w w')"


text \<open>The temporary files made between two states of the world that still exist in the second.\<close>

definition leaked :: "world \<Rightarrow> world \<Rightarrow> path list" where
  "leaked w w' = filter (\<lambda>p. path_exists p w') (drop (length (created w)) (created w'))"

text \<open>The responses printed by the main loop, in order.\<close>

fun results :: "printed list \<Rightarrow> response list" where
  "results [] = []"
| "results (Diag s # ps) = results ps"
| "results (Result r # ps) = r # results ps"



text \<open>Nothing was printed by the main loop between two states of the world.\<close>

definition quiet :: "world \<Rightarrow> world \<Rightarrow> bool" where
  "quiet w w' = (results (stdout w') = results (stdout w))"

section \<open>Sample inputs\<close>

text \<open>
  A decoder that knows a few command lines; any other line is not JSON. The escape
  \<open>u00e9\<close> in a JSON string stands for the character 233.
\<close>

definition sample_loads :: "string \<Rightarrow> string + json" where
  \<open>sample_loads line =
     (if line = ''{"type": "status"}'' then Inr (JObject [(''type'', JString ''status'')])
      else if line = ''{"type": "transcribe"}'' then Inr (JObject [(''type'', JString ''transcribe'')])
      else if line = ''{"type": "transcribe", "audio_data": "AAA=", "sample_rate": 16000}'' then
        Inr (JObject [(''type'', JString ''transcribe''), (''audio_data'', JString ''AAA=''),
                      (''sample_rate'', JInt 16000)])
      else if line = ''{"type": "tts", "text": "Hello"}'' then
        Inr (JObject [(''type'', JString ''tts''), (''text'', JString ''Hello'')])
      else if line = ''{"type": "tts"}'' then Inr (JObject [(''type'', JString ''tts'')])
      else if line = ''{"type": "tts", "text": 5}'' then
        Inr (JObject [(''type'', JString ''tts''), (''text'', JInt 5)])
      else if line = ''{"type": "tts", "text": "caf'' @ [CHR 0x5C] @ ''u00e9"}'' then
        Inr (JObject [(''type'', JString ''tts''), (''text'', JString (''caf'' @ [CHR 0xE9]))])
      else if line = '' quit '' then Inl ''Expecting value: line 1 column 2 (char 1)''
      else if line = ''{"type": "dance"}'' then Inr (JObject [(''type'', JString ''dance'')])
      else if line = ''{}'' then Inr (JObject [])
      else Inl ''Expecting value: line 1 column 1 (char 0)'')\<close>

definition sample_env :: "(nat \<Rightarrow> outcome) \<Rightarrow> env" where
  "sample_env run =
     \<lparr>loads = sample_loads,
      repr = (\<lambda>v. ''[...]''),
      sf_write_error = (\<lambda>rate data. case rate of JInt n \<Rightarrow> None | _ \<Rightarrow> Some ''an integer is required''),
      run_outcome = run,
      signal_name = (\<lambda>n. if n = 9 then Some ''SIGKILL''
                         else if n = 15 then Some ''SIGTERM'' else None),
      stdout_encodes = (\<lambda>c. True),
      file_encodes = (\<lambda>c. True),
      encode_error = (\<lambda>s. ''codec cannot encode the text'')\<rparr>"

text \<open>
  Tools that never finish in time; a transcription tool that is not installed; tools that
  succeed and leave two samples of audio; tools that succeed and leave an audio file with
  no samples.
\<close>

definition failing_tools :: env where
  "failing_tools = sample_env (\<lambda>n. TimedOut)"

definition missing_module :: env where
  "missing_module = sample_env (\<lambda>n. Completed 1 [] ''No module named moshi_mlx'' None)"

definition working_tools :: env where
  "working_tools = sample_env (\<lambda>n. Completed 0 [] [] (Some [0, 0]))"

definition empty_audio_tools :: env where
  "empty_audio_tools = sample_env (\<lambda>n. Completed 0 [] [] (Some []))"

text \<open>
  The same working tools under a standard output that encodes ASCII only; the text of the
  exception is the one Python raises for the sample command with the character 233.
\<close>

definition ascii_stdout :: env where
  "ascii_stdout =
     working_tools\<lparr>stdout_encodes := (\<lambda>c. False),
                    encode_error := (\<lambda>s. quoted ''ascii'' @ '' codec can'' @ [CHR 0x27] @
                       ''t encode character '' @ quoted ([CHR 0x5C] @ ''xe9'') @
                       '' in position 29: ordinal not in range(128)'')\<rparr>"

text \<open>A service whose models are already loaded.\<close>

definition warm_service :: service where
  "warm_service = init_service\<lparr>stt_warmed_up := True, tts_warmed_up := True\<rparr>"

section \<open>The transcript parser meets its description\<close>

lemma is_debug_info_diagnostic: "is_debug_info line = diagnostic line"
  by (simp add: is_debug_info_def diagnostic_def informational_def json_brace_def
      model_metadata_def metadata_keywords_def disj_assoc)

lemma scan_lines_filter:
  "scan_lines ls =
     (case filter (\<lambda>l. l \<noteq> []) (filter (\<lambda>l. \<not> diagnostic l) (map strip ls)) of
        [] \<Rightarrow> []
      | l # _ \<Rightarrow> l)"
proof (induction ls)
  case Nil
  show ?case by simp
next
  case (Cons l ls)
  have "\<not> diagnostic (strip l) \<Longrightarrow> \<not> startswith (strip l) ''Info:'' \<and> \<not> startswith (strip l) ''{''"
    by (simp add: diagnostic_def informational_def json_brace_def)
  with Cons show ?case
    by (auto simp: Let_def is_debug_info_diagnostic)
qed

text \<open>
  C7. For every captured output, the loop of \<open>transcribe_audio\<close> returns what the specification
  describes: scanning the trimmed lines from the end backward and skipping every diagnostic
  line (an \<open>Info:\<close> prefix, a leading brace, a model-metadata keyword), the first non-empty line
  that remains, or the empty string when none remains.
\<close>

theorem extract_transcription_refines_spec:
  "extract_transcription out = transcript_spec out"
  by (simp add: extract_transcription_def transcript_spec_def scan_lines_filter rev_map)

theorem extract_transcription_refines_spec_witness:
  "transcript_spec (''Info: loading'' @ [CHR 0x0A] @ ''hello world'' @ [CHR 0x0A] @ ''steps: 12'') =
     ''hello world''"
  unfolding extract_transcription_refines_spec [symmetric]
  by (simp add: extract_transcription_def stdout_lines_def strip_def isspace_def
      is_debug_info_def startswith_def)

section \<open>The codec round trip\<close>

lemma index_of_nth: "distinct xs \<Longrightarrow> i < length xs \<Longrightarrow> index_of (xs ! i) xs = Some i"
proof (induction xs arbitrary: i)
  case Nil then show ?case by simp
next
  case (Cons y ys)
  show ?case
  proof (cases i)
    case 0 then show ?thesis by simp
  next
    case (Suc j)
    with Cons.prems have "ys ! j \<in> set ys" "y \<notin> set ys" by auto
    then have "ys ! j \<noteq> y" by auto
    with Cons Suc show ?thesis by simp
  qed
qed

lemma distinct_alphabet: "distinct b64_alphabet"
  by (simp add: b64_alphabet_def)

lemma length_alphabet: "length b64_alphabet = 64"
  by (simp add: b64_alphabet_def)

lemma pad_not_in_alphabet: "CHR ''='' \<notin> set b64_alphabet"
  by (simp add: b64_alphabet_def)

lemma table_a2b_b2a: "unat v < 64 \<Longrightarrow> table_a2b (table_b2a v) = Some v"
  by (simp add: table_a2b_def table_b2a_def index_of_nth distinct_alphabet length_alphabet)

lemma table_b2a_not_pad: "unat v < 64 \<Longrightarrow> table_b2a v \<noteq> CHR ''=''"
proof -
  assume "unat v < 64"
  then have "b64_alphabet ! unat v \<in> set b64_alphabet"
    by (simp add: length_alphabet)
  with pad_not_in_alphabet show ?thesis
    by (auto simp: table_b2a_def)
qed

lemma Suc_Suc_diff2: "2 \<le> n \<Longrightarrow> Suc (Suc (n - 2)) = n"
  by simp

lemma m3: "(3::byte) = mask 2" and m15: "(15::byte) = mask 4" and m63: "(63::byte) = mask 6"
  by (simp_all add: mask_eq_exp_minus_1)

lemmas sextet_defs = sextet1_def sextet2_def sextet3_def sextet4_def tail2_def tail3_def

lemma small_sextet: "drop_bit 6 (s::byte) = 0 \<Longrightarrow> unat s < 64"
proof -
  assume "drop_bit 6 s = 0"
  then have "unat (drop_bit 6 s) = 0" by simp
  then have "unat s div 64 = 0" by (simp add: unat_drop_bit_eq drop_bit_eq_div unat_div)
  then show ?thesis by simp
qed

lemma sextet_bounds:
  "unat (sextet1 a) < 64" "unat (sextet2 a b) < 64" "unat (sextet3 b c) < 64"
  "unat (sextet4 c) < 64" "unat (tail2 a) < 64" "unat (tail3 b) < 64"
  by (rule small_sextet, rule bit_eqI, auto simp: sextet_defs bit_simps m3 m15 m63)+

lemma first_byte: "push_bit 2 (sextet1 a) OR drop_bit 4 (sextet2 a b) = a"
  and first_byte_tail: "push_bit 2 (sextet1 a) OR drop_bit 4 (tail2 a) = a"
  and second_byte: "push_bit 4 (sextet2 a b AND 15) OR drop_bit 2 (sextet3 b c) = b"
  and second_byte_tail: "push_bit 4 (sextet2 a b AND 15) OR drop_bit 2 (tail3 b) = b"
  and third_byte: "push_bit 6 (sextet3 b c AND 3) OR sextet4 c = c"
  by (rule bit_eqI, auto simp: sextet_defs bit_simps m3 m15 m63 Suc_Suc_diff2,
      ((rule ccontr, simp add: Suc_Suc_diff2)+)?)+

lemma a2b_data_char:
  "unat v < 64 \<Longrightarrow>
   a2b_base64 q l p (table_b2a v # rest) out =
     (if q = 0 then a2b_base64 1 v 0 rest out
      else if q = 1 then a2b_base64 2 (v AND 15) 0 rest (out @ [push_bit 2 l OR drop_bit 4 v])
      else if q = 2 then a2b_base64 3 (v AND 3) 0 rest (out @ [push_bit 4 l OR drop_bit 2 v])
      else a2b_base64 0 0 0 rest (out @ [push_bit 6 l OR v]))"
  by (simp add: table_a2b_b2a table_b2a_not_pad)

lemma a2b_pad:
  "a2b_base64 q l p (CHR ''='' # rest) out =
     (if q \<ge> 2 \<and> q + (p + 1) \<ge> 4 then Inr out
      else a2b_base64 q l (if q \<ge> 2 then p + 1 else p) rest out)"
  by simp

lemma a2b_b2a: "a2b_base64 0 0 0 (b2a_base64 bs) out = Inr (out @ bs)"
proof (induction bs arbitrary: out rule: b2a_base64.induct)
  case 1
  show ?case by simp
next
  case (2 a)
  show ?case
    by (simp add: a2b_data_char a2b_pad sextet_bounds first_byte_tail del: a2b_base64.simps(2) push_bit_and)
next
  case (3 a b)
  show ?case
    by (simp add: a2b_data_char a2b_pad sextet_bounds first_byte second_byte_tail
        del: a2b_base64.simps(2) push_bit_and)
next
  case (4 a b c bs)
  then show ?case
    by (simp add: a2b_data_char sextet_bounds first_byte second_byte third_byte
        del: a2b_base64.simps(2) push_bit_and)
qed

lemma alphabet_ascii: "list_all (\<lambda>c. (of_char c :: nat) < 128) b64_alphabet"
  by (simp add: b64_alphabet_def)

lemma table_b2a_ascii: "unat v < 64 \<Longrightarrow> (of_char (table_b2a v) :: nat) < 128"
  using alphabet_ascii by (simp add: list_all_length table_b2a_def length_alphabet)

lemma b2a_ascii: "list_all (\<lambda>c. (of_char c :: nat) < 128) (b2a_base64 bs)"
  by (induction bs rule: b2a_base64.induct) (simp_all add: table_b2a_ascii sextet_bounds)

text \<open>
  C4. For every byte buffer, the empty one and those of odd length included, decoding the
  base64 text of the buffer gives the buffer back, byte for byte: nothing is resampled,
  converted or clipped.
\<close>

theorem b64_roundtrip: "b64decode (b64encode bs) = Inr bs"
  by (simp add: b64decode_def b64encode_def b2a_ascii a2b_b2a)

text \<open>The samples survive the packing into bytes as well.\<close>

lemma sample_roundtrip: "frombuffer (tobytes xs) = Inr xs"
proof (induction xs)
  case Nil
  show ?case by simp
next
  case (Cons x xs)
  have "push_bit 8 (ucast (ucast (drop_bit 8 x) :: byte)) OR ucast (ucast x :: byte) = x"
    by (rule bit_eqI) (auto simp: bit_simps)
  with Cons show ?case by simp
qed

lemma pcm16_transport: "map_sum id frombuffer (b64decode (b64encode (tobytes xs))) = Inr (Inr xs)"
  by (simp add: a2b_b2a b2a_ascii b64decode_def b64encode_def sample_roundtrip)

section \<open>Evaluating the model\<close>

lemmas char_eval = char_of_def bit_Suc_0_iff

lemmas world_defs = py_print_def named_temporary_file_def write_text_def os_unlink_def
  path_exists_def sf_write_def sf_read_def subprocess_run_def tool_writes_def output_file_def
  List.map_filter_def print_result_def

lemmas service_defs = warmup_stt_def warmup_tts_def stt_inference_def transcribe_audio_def
  tts_banner_def banner_text_def banner_line_def printable_def writable_def tts_inference_def
  synthesize_def text_to_speech_def py_b64decode_def
  handle_transcribe_def handle_tts_def process_command_def debug_tts_models_def startup_def
  main_def stt_cmd_def tts_cmd_def

lemmas text_defs = path_str_def arg_str_def cmd_repr_def quoted_def show_int_def py_str_def
  digits.simps char_eval strip_def isspace_def lower_def lower_char_def

lemmas sample_defs = sample_env_def sample_loads_def init_service_def init_world_def
  warm_service_def dict_get_def failing_tools_def missing_module_def working_tools_def
  empty_audio_tools_def ascii_stdout_def

section \<open>How the world changes\<close>

lemma results_append: "results (xs @ ys) = results xs @ results ys"
  by (induction xs rule: results.induct) simp_all

lemma subprocess_run_world:
  "calls (snd (subprocess_run env cmd chk t w)) =
     calls w @ [\<lparr>argv = cmd, timeout = t, check = chk, seen = List.map_filter (arg_file w) cmd\<rparr>]"
  "created (snd (subprocess_run env cmd chk t w)) = created w"
  "stdout (snd (subprocess_run env cmd chk t w)) = stdout w"
  by (simp_all add: subprocess_run_def tool_writes_def Let_def split: outcome.splits option.splits)

lemma py_print_world:
  "calls (py_print x w) = calls w" "created (py_print x w) = created w"
  "files (py_print x w) = files w" "stdout (py_print x w) = stdout w @ [Diag x]"
  by (simp_all add: py_print_def)

lemma os_unlink_world:
  "calls (os_unlink p w) = calls w" "created (os_unlink p w) = created w"
  "stdout (os_unlink p w) = stdout w" "files (os_unlink p w) = (files w)(p := None)"
  by (simp_all add: os_unlink_def)

lemma write_text_world:
  "calls (write_text p t w) = calls w" "created (write_text p t w) = created w"
  "stdout (write_text p t w) = stdout w" "files (write_text p t w) = (files w)(p \<mapsto> TextFile t)"
  by (simp_all add: write_text_def)

lemma named_temporary_file_world:
  "fst (named_temporary_file sfx w) = TmpFile (length (created w)) sfx"
  "calls (snd (named_temporary_file sfx w)) = calls w"
  "created (snd (named_temporary_file sfx w)) = created w @ [TmpFile (length (created w)) sfx]"
  "stdout (snd (named_temporary_file sfx w)) = stdout w"
  "files (snd (named_temporary_file sfx w)) = (files w)(TmpFile (length (created w)) sfx \<mapsto> Blank)"
  by (simp_all add: named_temporary_file_def Let_def)


lemma warmup_tts_except_world:
  "calls (warmup_tts_except env e w) = calls w" "created (warmup_tts_except env e w) = created w"
  "files (warmup_tts_except env e w) = files w"
  by (cases e; simp add: py_print_world)+

lemma stt_except_world:
  "calls (stt_except env e w) = calls w" "created (stt_except env e w) = created w"
  "files (stt_except env e w) = files w"
  by (cases e; simp add: py_print_world)+





section \<open>The warmup flags\<close>

text \<open>
  C2 (the code departs from it). \<open>warmup_stt\<close> calls \<open>subprocess.run\<close> without \<open>check=True\<close>,
  so a throwaway inference that exits with status 1 still sets \<open>stt_warmed_up\<close>:
  here the tool is not installed, and the warmup reports success.
\<close>

theorem warmup_stt_ignores_exit_status:
  "warmup_stt missing_module init_service init_world =
   (True, init_service\<lparr>stt_warmed_up := True\<rparr>,
    \<lparr>files = Map.empty, created = [TmpFile 0 ''.wav''],
     calls = [\<lparr>argv = stt_cmd init_service (TmpFile 0 ''.wav''), timeout = 120, check = False,
              seen = [(TmpFile 0 ''.wav'', WavFile (JInt 16000) silence)]\<rparr>],
     stdout = [Diag ''Warming up STT model...'', Diag ''STT model warmed up successfully!'']\<rparr>)"
  by (simp add: warmup_stt_def world_defs sample_defs stt_cmd_def Let_def)

section \<open>Temporary files\<close>

text \<open>
  C6 (the code departs from it). A \<open>tts\<close> command on a cold service whose warmup run times
  out: the command completes with \<open>success: false\<close>, and both temporary files of the warmup
  are still there, because \<open>warmup_tts\<close> unlinks them only after a successful run.
\<close>

theorem warmup_timeout_leaves_temporary_files:
  \<open>(case process_command failing_tools ''{"type": "tts", "text": "Hello"}''
           init_service init_world of
      (r, s, w) \<Rightarrow> (r, leaked init_world w)) =
   (Dumps (JObject [(''type'', JString ''tts_result''), (''success'', JBool False),
                    (''error'', JString ''TTS generation failed'')]),
    [TmpFile 0 ''.txt'', TmpFile 1 ''.wav''])\<close>
  by (simp add: service_defs world_defs sample_defs leaked_def tts_result_def Let_def)

text \<open>The same for \<open>transcribe\<close> and the silence file of \<open>warmup_stt\<close>.\<close>

lemma warmup_timeout_leaves_silence_file:
  \<open>(case process_command failing_tools
           ''{"type": "transcribe", "audio_data": "AAA=", "sample_rate": 16000}''
           init_service init_world of
      (r, s, w) \<Rightarrow> (r, leaked init_world w)) =
   (Dumps (JObject [(''type'', JString ''transcription_result''), (''text'', JNull),
                    (''success'', JBool False)]),
    [TmpFile 0 ''.wav''])\<close>
  by (simp add: service_defs world_defs sample_defs leaked_def transcription_result_def Let_def
      b64decode_def table_a2b_def b64_alphabet_def)

section \<open>The dispatcher\<close>

text \<open>
  C3 (the code departs from it). A \<open>transcribe\<close> command whose \<open>audio_data\<close> is missing or
  empty is a line other than \<open>quit\<close>, and the loop prints one line for it, but the line is
  \<open>None\<close>, not a JSON object: \<open>process_command\<close> has no \<open>else\<close> for that case.
\<close>

theorem transcribe_without_audio_prints_None:
  assumes "lower (strip l) \<noteq> ''quit''"
    and "loads env (strip l) = Inr (JObject command)"
    and "dict_get command ''type'' JNull = JString ''transcribe''"
    and "\<not> truthy (dict_get command ''audio_data'' JNull)"
  shows "main_loop env (InputLine l # rest) s w = main_loop env rest s (print_result PyNone w)"
  using assms by (simp add: process_command_def handle_transcribe_def)

theorem transcribe_without_audio_prints_None_witness:
  \<open>lower (strip ''{"type": "transcribe"}'') \<noteq> ''quit'' \<and>
   loads failing_tools (strip ''{"type": "transcribe"}'') =
     Inr (JObject [(''type'', JString ''transcribe'')]) \<and>
   dict_get [(''type'', JString ''transcribe'')] ''type'' JNull = JString ''transcribe'' \<and>
   \<not> truthy (dict_get [(''type'', JString ''transcribe'')] ''audio_data'' JNull) \<and>
   results (stdout (snd (main_loop failing_tools [InputLine ''{"type": "transcribe"}'']
                           init_service init_world))) = [PyNone]\<close>
proof -
  have a: \<open>lower (strip ''{"type": "transcribe"}'') \<noteq> ''quit''\<close>
    by (simp add: lower_def strip_def isspace_def)
  have b: \<open>loads failing_tools (strip ''{"type": "transcribe"}'') =
     Inr (JObject [(''type'', JString ''transcribe'')])\<close>
    by (simp add: sample_defs strip_def isspace_def)
  have c: "dict_get [(''type'', JString ''transcribe'')] ''type'' JNull = JString ''transcribe''"
    by (simp add: dict_get_def)
  have d: "\<not> truthy (dict_get [(''type'', JString ''transcribe'')] ''audio_data'' JNull)"
    by (simp add: dict_get_def)
  show ?thesis
    using a b c d transcribe_without_audio_prints_None [OF a b c d, of "[]" init_service init_world]
    by (simp add: print_result_def py_print_def init_world_def)
qed

text \<open>
  C9 as stated fails on a line that is not the shutdown command of the specification: the
  line \<open>quit\<close> with a space on each side is not valid JSON and does not equal \<open>quit\<close> in
  any letter case, yet the loop trims it before it compares, and ends without an error
  response; the command after it is never read.
\<close>

theorem padded_quit_ends_the_loop:
  \<open>lower '' quit '' \<noteq> ''quit'' \<and>
   loads failing_tools '' quit '' = Inl ''Expecting value: line 1 column 2 (char 1)'' \<and>
   main_loop failing_tools [InputLine '' quit '', InputLine ''{"type": "status"}'']
     init_service init_world =
   (init_service, init_world\<lparr>stdout := [Diag ''Shutting down service...'']\<rparr>)\<close>
  by (simp add: sample_defs strip_def isspace_def lower_def lower_char_def py_print_def)

text \<open>
  C9, amended. For every input line that, once trimmed of the white space around it, is
  other than \<open>quit\<close> in every letter case, and that is not valid JSON, or is a JSON object
  whose \<open>type\<close> is missing or not one of \<open>transcribe\<close>, \<open>tts\<close>, \<open>status\<close>, the loop prints
  an error response and goes on with the rest of the input, the service unchanged.
\<close>

theorem malformed_line_gets_error_response:
  assumes "lower (strip l) \<noteq> ''quit''"
    and "(\<exists>msg. loads env (strip l) = Inl msg) \<or>
         (\<exists>command. loads env (strip l) = Inr (JObject command) \<and>
            dict_get command ''type'' JNull \<noteq> JString ''transcribe'' \<and>
            dict_get command ''type'' JNull \<noteq> JString ''tts'' \<and>
            dict_get command ''type'' JNull \<noteq> JString ''status'')"
  shows "\<exists>msg. main_loop env (InputLine l # rest) s w =
           main_loop env rest s (print_result (error_response msg) w)"
  using assms by (auto simp: process_command_def)

theorem malformed_line_gets_error_response_witness:
  \<open>results (stdout (snd (main_loop failing_tools
      [InputLine ''not json'', InputLine ''{}'', InputLine ''{"type": "dance"}'']
      init_service init_world))) =
   [error_response ''Expecting value: line 1 column 1 (char 0)'',
    error_response ''Unknown command type: None'',
    error_response ''Unknown command type: dance'']\<close>
proof -
  let ?env = failing_tools
  have q: \<open>lower (strip ''not json'') \<noteq> ''quit''\<close>
    by (simp add: lower_def strip_def isspace_def)
  have j: \<open>(\<exists>msg. loads ?env (strip ''not json'') = Inl msg) \<or>
         (\<exists>command. loads ?env (strip ''not json'') = Inr (JObject command) \<and>
            dict_get command ''type'' JNull \<noteq> JString ''transcribe'' \<and>
            dict_get command ''type'' JNull \<noteq> JString ''tts'' \<and>
            dict_get command ''type'' JNull \<noteq> JString ''status'')\<close>
    by (simp add: sample_defs strip_def isspace_def)
  from malformed_line_gets_error_response [OF q j, of
      \<open>[InputLine ''{}'', InputLine ''{"type": "dance"}'']\<close> init_service init_world]
  obtain msg where
    \<open>main_loop ?env [InputLine ''not json'', InputLine ''{}'', InputLine ''{"type": "dance"}'']
       init_service init_world =
     main_loop ?env [InputLine ''{}'', InputLine ''{"type": "dance"}''] init_service
       (print_result (error_response msg) init_world)\<close>
    by blast
  then show ?thesis
    by (simp add: sample_defs strip_def isspace_def lower_def lower_char_def process_command_def
        print_result_def py_print_def py_str_def)
qed





section \<open>Lazy warmup\<close>

lemma warmup_tts_calls:
  "\<exists>cs. calls (snd (snd (warmup_tts env s w))) = calls w @ cs \<and>
        list_all (\<lambda>c. timeout c = 120) cs"
  by (simp add: warmup_tts_def Let_def case_prod_beta subprocess_run_world py_print_world
      os_unlink_world write_text_world named_temporary_file_world warmup_tts_except_world
      split: sum.splits)

lemma warmup_tts_failed: "\<not> fst (warmup_tts env s w) \<Longrightarrow> fst (snd (warmup_tts env s w)) = s"
  by (simp add: warmup_tts_def Let_def case_prod_beta split: sum.splits if_splits)

lemma sf_write_world:
  "sf_write env p d r w = Inr w' \<Longrightarrow>
     calls w' = calls w \<and> created w' = created w \<and> stdout w' = stdout w"
  by (auto simp: sf_write_def split: option.splits)

lemma warmup_stt_calls:
  "\<exists>cs. calls (snd (snd (warmup_stt env s w))) = calls w @ cs \<and>
        list_all (\<lambda>c. timeout c = 120) cs"
  by (auto simp: warmup_stt_def Let_def case_prod_beta subprocess_run_world py_print_world
      os_unlink_world named_temporary_file_world dest!: sf_write_world
      split: sum.splits)

lemma warmup_stt_failed: "\<not> fst (warmup_stt env s w) \<Longrightarrow> fst (snd (warmup_stt env s w)) = s"
  by (simp add: warmup_stt_def Let_def case_prod_beta split: sum.splits if_splits)

lemma no_inference_in_warmup_calls:
  "calls w' = calls w @ cs \<Longrightarrow> list_all (\<lambda>c. timeout c = 120) cs \<Longrightarrow> \<not> inference_attempted w w'"
  by (auto simp: inference_attempted_def new_calls_def list_ex_iff list_all_iff)

lemma text_to_speech_failed_warmup:
  "\<not> tts_warmed_up s \<Longrightarrow> \<not> fst (warmup_tts env s w) \<Longrightarrow>
   text_to_speech env text s w = (Inr None, s, snd (snd (warmup_tts env s w)))"
  using warmup_tts_failed [of env s w]
  by (simp add: text_to_speech_def case_prod_beta prod_eq_iff)

lemma transcribe_audio_failed_warmup:
  "\<not> stt_warmed_up s \<Longrightarrow> \<not> fst (warmup_stt env s w) \<Longrightarrow>
   transcribe_audio env audio_data sample_rate s w = (Inr None, s, snd (snd (warmup_stt env s w)))"
  using warmup_stt_failed [of env s w]
  by (simp add: transcribe_audio_def case_prod_beta prod_eq_iff)

text \<open>
  C1 as stated fails: a \<open>tts\<close> command on a cold service whose warmup run times out makes
  that one call, with the 120 second timeout, and no call for the real inference.
\<close>

theorem failed_warmup_makes_no_inference_call:
  \<open>\<not> tts_warmed_up init_service \<and>
   \<not> fst (warmup_tts failing_tools init_service init_world) \<and>
   map timeout (new_calls init_world
     (snd (snd (process_command failing_tools ''{"type": "tts", "text": "Hello"}''
                  init_service init_world)))) = [120] \<and>
   \<not> inference_attempted init_world
     (snd (snd (process_command failing_tools ''{"type": "tts", "text": "Hello"}''
                  init_service init_world)))\<close>
  by (simp add: service_defs world_defs sample_defs inference_attempted_def new_calls_def Let_def)

text \<open>
  C1, amended. For every \<open>transcribe\<close> or \<open>tts\<close> command that triggers a lazy warmup and
  whose warmup fails, the command returns at once, without attempting its real external-tool
  invocation: the world is left as the warmup left it. The failure is reported through the
  normal response, with \<open>success: false\<close>, and the loop goes on with the flags unchanged.
\<close>

theorem failed_lazy_warmup_skips_inference:
  "(lower (strip l) \<noteq> ''quit'' \<and>
    loads env (strip l) = Inr (JObject command) \<and>
    dict_get command ''type'' JNull = JString ''tts'' \<and>
    \<not> tts_warmed_up s \<and> \<not> fst (warmup_tts env s w)
    \<longrightarrow>
    main_loop env (InputLine l # rest) s w =
      main_loop env rest s
        (print_result
           (Dumps (JObject [(''type'', JString ''tts_result''), (''success'', JBool False),
                            (''error'', JString ''TTS generation failed'')]))
           (snd (snd (warmup_tts env s w)))) \<and>
    \<not> inference_attempted w (snd (snd (warmup_tts env s w)))) \<and>
   (lower (strip l) \<noteq> ''quit'' \<and>
    loads env (strip l) = Inr (JObject command) \<and>
    dict_get command ''type'' JNull = JString ''transcribe'' \<and>
    truthy (dict_get command ''audio_data'' JNull) \<and>
    py_b64decode (dict_get command ''audio_data'' JNull) = Inr audio_bytes \<and>
    frombuffer audio_bytes = Inr audio_data \<and>
    \<not> stt_warmed_up s \<and> \<not> fst (warmup_stt env s w)
    \<longrightarrow>
    main_loop env (InputLine l # rest) s w =
      main_loop env rest s
        (print_result
           (Dumps (JObject [(''type'', JString ''transcription_result''), (''text'', JNull),
                            (''success'', JBool False)]))
           (snd (snd (warmup_stt env s w)))) \<and>
    \<not> inference_attempted w (snd (snd (warmup_stt env s w))))"
proof (intro conjI impI)
  assume h: "lower (strip l) \<noteq> ''quit'' \<and>
    loads env (strip l) = Inr (JObject command) \<and>
    dict_get command ''type'' JNull = JString ''tts'' \<and>
    \<not> tts_warmed_up s \<and> \<not> fst (warmup_tts env s w)"
  then show "main_loop env (InputLine l # rest) s w =
      main_loop env rest s
        (print_result
           (Dumps (JObject [(''type'', JString ''tts_result''), (''success'', JBool False),
                            (''error'', JString ''TTS generation failed'')]))
           (snd (snd (warmup_tts env s w))))"
    by (simp add: process_command_def handle_tts_def text_to_speech_failed_warmup tts_result_def)
  from warmup_tts_calls [of env s w] show "\<not> inference_attempted w (snd (snd (warmup_tts env s w)))"
    by (auto dest: no_inference_in_warmup_calls)
next
  assume h: "lower (strip l) \<noteq> ''quit'' \<and>
    loads env (strip l) = Inr (JObject command) \<and>
    dict_get command ''type'' JNull = JString ''transcribe'' \<and>
    truthy (dict_get command ''audio_data'' JNull) \<and>
    py_b64decode (dict_get command ''audio_data'' JNull) = Inr audio_bytes \<and>
    frombuffer audio_bytes = Inr audio_data \<and>
    \<not> stt_warmed_up s \<and> \<not> fst (warmup_stt env s w)"
  then show "main_loop env (InputLine l # rest) s w =
      main_loop env rest s
        (print_result
           (Dumps (JObject [(''type'', JString ''transcription_result''), (''text'', JNull),
                            (''success'', JBool False)]))
           (snd (snd (warmup_stt env s w))))"
    by (simp add: process_command_def handle_transcribe_def transcribe_audio_failed_warmup
        transcription_result_def)
  from warmup_stt_calls [of env s w] show "\<not> inference_attempted w (snd (snd (warmup_stt env s w)))"
    by (auto dest: no_inference_in_warmup_calls)
qed

theorem failed_lazy_warmup_skips_inference_witness:
  \<open>results (stdout (snd (main_loop failing_tools [InputLine ''{"type": "tts", "text": "Hello"}'']
      init_service init_world))) =
     [Dumps (JObject [(''type'', JString ''tts_result''), (''success'', JBool False),
                      (''error'', JString ''TTS generation failed'')])] \<and>
   results (stdout (snd (main_loop failing_tools
      [InputLine ''{"type": "transcribe", "audio_data": "AAA=", "sample_rate": 16000}'']
      init_service init_world))) =
     [Dumps (JObject [(''type'', JString ''transcription_result''), (''text'', JNull),
                      (''success'', JBool False)])]\<close>
proof -
  let ?tts = \<open>''{"type": "tts", "text": "Hello"}''\<close>
  let ?stt = \<open>''{"type": "transcribe", "audio_data": "AAA=", "sample_rate": 16000}''\<close>
  let ?c1 = "[(''type'', JString ''tts''), (''text'', JString ''Hello'')]"
  let ?c2 = "[(''type'', JString ''transcribe''), (''audio_data'', JString ''AAA=''),
              (''sample_rate'', JInt 16000)]"
  have h1: "lower (strip ?tts) \<noteq> ''quit'' \<and>
    loads failing_tools (strip ?tts) = Inr (JObject ?c1) \<and>
    dict_get ?c1 ''type'' JNull = JString ''tts'' \<and>
    \<not> tts_warmed_up init_service \<and> \<not> fst (warmup_tts failing_tools init_service init_world)"
    by (simp add: sample_defs strip_def isspace_def lower_def warmup_tts_def world_defs
        tts_cmd_def Let_def)
  have h2: "lower (strip ?stt) \<noteq> ''quit'' \<and>
    loads failing_tools (strip ?stt) = Inr (JObject ?c2) \<and>
    dict_get ?c2 ''type'' JNull = JString ''transcribe'' \<and>
    truthy (dict_get ?c2 ''audio_data'' JNull) \<and>
    py_b64decode (dict_get ?c2 ''audio_data'' JNull) = Inr [0, 0] \<and>
    frombuffer [0, 0] = Inr [0] \<and>
    \<not> stt_warmed_up init_service \<and> \<not> fst (warmup_stt failing_tools init_service init_world)"
    by (simp add: sample_defs strip_def isspace_def lower_def warmup_stt_def world_defs
        stt_cmd_def Let_def py_b64decode_def b64decode_def table_a2b_def b64_alphabet_def)
  have r1: "results (stdout (snd (snd (warmup_tts failing_tools init_service init_world)))) = []"
    by (simp add: warmup_tts_def world_defs sample_defs tts_cmd_def text_defs Let_def)
  have r2: "results (stdout (snd (snd (warmup_stt failing_tools init_service init_world)))) = []"
    by (simp add: warmup_stt_def world_defs sample_defs stt_cmd_def text_defs Let_def)
  note thm1 = failed_lazy_warmup_skips_inference [where rest = "[]", THEN conjunct1, THEN mp, OF h1]
  note thm2 = failed_lazy_warmup_skips_inference [where rest = "[]", THEN conjunct2, THEN mp, OF h2]
  from thm1 thm2 r1 r2 show ?thesis
    by (simp add: print_result_def py_print_def results_append)
qed

section \<open>Synthesis commands\<close>














section \<open>Further facts\<close>

text \<open>
  When a warmup sets its flag. \<open>warmup_tts\<close> does so exactly when the tool exits with status
  0; \<open>warmup_stt\<close> does so whenever the tool exits at all, whatever the status.
\<close>

lemma warmup_tts_flag_iff:
  "\<not> tts_warmed_up s \<Longrightarrow>
   tts_warmed_up (fst (snd (warmup_tts env s w))) =
     (\<exists>out err audio. run_outcome env (length (calls w)) = Completed 0 out err audio)"
  by (auto simp: warmup_tts_def Let_def case_prod_beta subprocess_run_def py_print_world
      write_text_world named_temporary_file_world split: sum.splits outcome.splits if_splits)

lemma warmup_stt_flag_iff:
  "\<not> stt_warmed_up s \<Longrightarrow>
   stt_warmed_up (fst (snd (warmup_stt env s w))) =
     (sf_write_error env (JInt 16000) silence = None \<and>
      (\<exists>rc out err audio. run_outcome env (length (calls w)) = Completed rc out err audio))"
  by (auto simp: warmup_stt_def Let_def case_prod_beta subprocess_run_def py_print_world
      sf_write_def named_temporary_file_world split: sum.splits outcome.splits if_splits option.splits)

text \<open>
  The methods of the service print diagnostics only, so every input line other than \<open>quit\<close>
  is answered by exactly one printed result, after which the loop goes on.
\<close>

lemma quiet_refl [simp]: "quiet w w" by (simp add: quiet_def)

lemma quiet_print [simp]: "quiet w (py_print x w') = quiet w w'"
  by (simp add: quiet_def py_print_world results_append)

lemma quiet_unlink [simp]: "quiet w (os_unlink p w') = quiet w w'"
  by (simp add: quiet_def os_unlink_world)

lemma quiet_write_text [simp]: "quiet w (write_text p t w') = quiet w w'"
  by (simp add: quiet_def write_text_world)

lemma quiet_tmp [simp]: "quiet w (snd (named_temporary_file sfx w')) = quiet w w'"
  by (simp add: quiet_def named_temporary_file_world)

lemma quiet_run [simp]: "quiet w (snd (subprocess_run env cmd chk t w')) = quiet w w'"
  by (simp add: quiet_def subprocess_run_world)

lemma quiet_sf_write: "sf_write env p d r w' = Inr w'' \<Longrightarrow> quiet w w'' = quiet w w'"
  by (auto simp: quiet_def dest: sf_write_world)

lemma quiet_excepts [simp]:
  "quiet w (tts_except env e w') = quiet w w'"
  "quiet w (stt_except env e w') = quiet w w'"
  "quiet w (warmup_tts_except env e w') = quiet w w'"
  by (cases e; simp)+

lemma quiet_warmup_tts: "quiet w (snd (snd (warmup_tts env s w)))"
  by (simp add: warmup_tts_def Let_def case_prod_beta split: sum.splits)

lemma quiet_warmup_stt: "quiet w (snd (snd (warmup_stt env s w)))"
  by (auto simp: warmup_stt_def Let_def case_prod_beta quiet_sf_write split: sum.splits)

lemma quiet_trans_warmup_tts [simp]:
  "quiet w (snd (snd (warmup_tts env s w'))) = quiet w w'"
  using quiet_warmup_tts [of w' env s] by (simp add: quiet_def)

lemma quiet_trans_warmup_stt [simp]:
  "quiet w (snd (snd (warmup_stt env s w'))) = quiet w w'"
  using quiet_warmup_stt [of w' env s] by (simp add: quiet_def)

lemma quiet_stt_inference [simp]:
  "quiet w (snd (stt_inference env a r s w')) = quiet w w'"
  by (auto simp: stt_inference_def Let_def case_prod_beta quiet_sf_write split: sum.splits)

lemma quiet_tts_inference [simp]:
  "quiet w (snd (tts_inference env p q w')) = quiet w w'"
  by (simp add: tts_inference_def Let_def case_prod_beta split: sum.splits)

lemma quiet_synthesize [simp]:
  "quiet w (snd (synthesize env text w')) = quiet w w'"
  by (simp add: synthesize_def Let_def case_prod_beta split: sum.splits json.splits)

lemma quiet_transcribe_audio [simp]:
  "quiet w (snd (snd (transcribe_audio env a r s w'))) = quiet w w'"
  by (simp add: transcribe_audio_def case_prod_beta)

lemma quiet_text_to_speech [simp]:
  "quiet w (snd (snd (text_to_speech env text s w'))) = quiet w w'"
  by (simp add: text_to_speech_def case_prod_beta)

lemma quiet_process_command: "quiet w (snd (snd (process_command env l s w)))"
  by (simp add: process_command_def handle_transcribe_def handle_tts_def Let_def case_prod_beta
      split: sum.splits json.splits)

lemma one_result_per_line:
  "lower (strip l) \<noteq> ''quit'' \<Longrightarrow>
   \<exists>r s1 w1. main_loop env (InputLine l # rest) s w = main_loop env rest s1 (print_result r w1) \<and>
     results (stdout w1) = results (stdout w)"
proof -
  assume "lower (strip l) \<noteq> ''quit''"
  then have "main_loop env (InputLine l # rest) s w =
      main_loop env rest (fst (snd (process_command env (strip l) s w)))
        (print_result (fst (process_command env (strip l) s w))
           (snd (snd (process_command env (strip l) s w))))"
    by (simp add: case_prod_beta Let_def)
  moreover have "results (stdout (snd (snd (process_command env (strip l) s w)))) = results (stdout w)"
    using quiet_process_command [of w env "strip l" s] by (simp add: quiet_def)
  ultimately show ?thesis by blast
qed

end
